theory Spec2Isabelle
  imports Complex_Main
begin

section \<open>Python values, exceptions and user-interface output\<close>

text \<open>
  The program is one Streamlit script, \<^verbatim>\<open>app.py\<close>. Every exception of the source is a
  value: \<open>Exc\<close> stands for an instance of Python's \<^verbatim>\<open>Exception\<close> (what
  \<^verbatim>\<open>except Exception\<close> catches, \<^verbatim>\<open>TypeError\<close> and \<^verbatim>\<open>IndexError\<close> included), and
  \<open>BaseExc\<close> for the other instances of \<^verbatim>\<open>BaseException\<close> (\<^verbatim>\<open>KeyboardInterrupt\<close>,
  \<^verbatim>\<open>SystemExit\<close>), which that clause lets through. The string is \<^verbatim>\<open>str(e)\<close>.
\<close>

datatype py_exc = Exc string | BaseExc string

text \<open>The three Streamlit message boxes the script writes: \<^verbatim>\<open>st.success\<close>,
  \<^verbatim>\<open>st.warning\<close>, \<^verbatim>\<open>st.error\<close>.\<close>

datatype ui_msg = UiSuccess string | UiWarning string | UiError string

section \<open>Data loading (\<^verbatim>\<open>load_data\<close>, lines 41-53)\<close>

text \<open>
  The three calls into other libraries are the environment of \<^verbatim>\<open>load_data\<close>, each
  given by its outcome, a return value or a raised exception:
  \<^verbatim>\<open>st.connection("gsheets", type=GSheetsConnection)\<close> (the connection object carries
  no data of its own), \<^verbatim>\<open>conn.read()\<close> and \<^verbatim>\<open>sns.load_dataset('titanic')\<close>. The type
  \<open>'d\<close> is the table.
\<close>

record 'd data_env =
  connection :: "py_exc + unit"
  read :: "py_exc + 'd"
  load_dataset :: "py_exc + 'd"

text \<open>
  The body of the \<^verbatim>\<open>try\<close> block up to the point where \<^verbatim>\<open>data\<close> is bound: the
  connection is opened, then read.
\<close>

text \<open>
  A table as far as the script looks at it: the names of its columns, and its rows. The
  two chart functions read the columns \<^verbatim>\<open>pclass\<close>, \<^verbatim>\<open>sex\<close> and \<^verbatim>\<open>survived\<close> (lines 64
  and 80) and raise \<^verbatim>\<open>KeyError\<close> when one of them is missing; a table is usable when it
  has all three. \<^verbatim>\<open>load_data\<close> itself never looks into the table.
\<close>

record table =
  columns :: "string list"
  rows :: "string list list"

definition usable :: "table \<Rightarrow> bool" where
  "usable t =
     (''pclass'' \<in> set (columns t) \<and> ''sex'' \<in> set (columns t) \<and>
      ''survived'' \<in> set (columns t))"

definition primary_read :: "'d data_env \<Rightarrow> py_exc + 'd" where
  "primary_read env =
     (case connection env of
        Inl e \<Rightarrow> Inl e
      | Inr conn \<Rightarrow> read env)"

text \<open>
  \<^verbatim>\<open>load_data\<close> returns the value or the exception that leaves the function, together
  with the messages written on the way. The handler \<^verbatim>\<open>except Exception as e\<close> catches
  \<open>Exc\<close> only; inside the handler \<^verbatim>\<open>sns.load_dataset('titanic')\<close> is called with no
  handler around it, so what it raises leaves \<^verbatim>\<open>load_data\<close>. The message calls of
  Streamlit are taken to return normally. The decorator \<^verbatim>\<open>st.cache_data\<close> stores the value
  of a call that returned and is not part of the model.
\<close>

definition load_data :: "'d data_env \<Rightarrow> (py_exc + 'd) \<times> ui_msg list" where
  "load_data env =
     (case primary_read env of
        Inr data \<Rightarrow>
          (Inr data, [UiSuccess ''Data successfully loaded from Google Sheet using secrets!''])
      | Inl (Exc e) \<Rightarrow>
          (load_dataset env,
           [UiWarning (''Error loading Google Sheet. Falling back to Seaborn'' @ [CHR 0x27]
                       @ ''s Titanic dataset.''),
            UiWarning (''**Error details**: '' @ e)])
      | Inl (BaseExc e) \<Rightarrow> (Inl (BaseExc e), []))"

section \<open>Session state (lines 93-100)\<close>

text \<open>
  \<^verbatim>\<open>st.session_state\<close> holds four keys that the script initialises and a fifth,
  \<^verbatim>\<open>elapsed_time\<close>, that exists only after it has been assigned and is removed with
  \<^verbatim>\<open>del\<close>. Python's \<^verbatim>\<open>None\<close> is \<open>None\<close>; for \<open>elapsed_time\<close>, \<open>None\<close> is the
  absent attribute (line 144 treats an absent attribute and \<^verbatim>\<open>None\<close> alike).
  A reading of \<^verbatim>\<open>time.time()\<close> is a real number of seconds, and the subtraction of two
  readings is exact.
\<close>

record session =
  start_time :: "real option"
  chart_displayed :: bool
  selected_chart :: "string option"
  answered :: bool
  elapsed_time :: "real option"

definition init_session :: session where
  "init_session =
     \<lparr>start_time = None, chart_displayed = False, selected_chart = None,
      answered = False, elapsed_time = None\<rparr>"

text \<open>Python truth value of an optional float and of an optional string.\<close>

definition truthy_float :: "real option \<Rightarrow> bool" where
  "truthy_float v = (case v of None \<Rightarrow> False | Some x \<Rightarrow> x \<noteq> 0)"

definition truthy_str :: "string option \<Rightarrow> bool" where
  "truthy_str v = (case v of None \<Rightarrow> False | Some s \<Rightarrow> s \<noteq> [])"

text \<open>
  \<^verbatim>\<open>random.choice(seq)\<close> is \<^verbatim>\<open>seq[self._randbelow(len(seq))]\<close> and raises
  \<^verbatim>\<open>IndexError\<close> on an empty sequence. The draw \<open>k\<close> of the generator is an argument;
  the generator only returns \<open>k < len(seq)\<close>.
\<close>

definition random_choice :: "'a list \<Rightarrow> nat \<Rightarrow> py_exc + 'a" where
  "random_choice seq k =
     (if length seq = 0 then Inl (Exc ''Cannot choose from an empty sequence'')
      else if k < length seq then Inr (seq ! k)
      else Inl (Exc ''list index out of range''))"

text \<open>
  \<^verbatim>\<open>time.time() - start_time\<close>: a \<^verbatim>\<open>TypeError\<close> when the right operand is
  \<^verbatim>\<open>None\<close>. On two floats Python rounds the difference to the nearest binary64 value;
  the model keeps the exact difference of the two readings, so it says nothing about that
  rounding.
\<close>

definition py_sub :: "real \<Rightarrow> real option \<Rightarrow> py_exc + real" where
  "py_sub a b =
     (case b of
        None \<Rightarrow> Inl (Exc (''unsupported operand type(s) for -: '' @ [CHR 0x27] @ ''float''
                         @ [CHR 0x27] @ '' and '' @ [CHR 0x27] @ ''NoneType'' @ [CHR 0x27]))
      | Some x \<Rightarrow> Inr (a - x))"

section \<open>The three button handlers\<close>

text \<open>
  Lines 115-120, the "Show a chart" button. \<open>now\<close> is the reading of \<^verbatim>\<open>time.time()\<close>
  and \<open>k\<close> the draw of \<^verbatim>\<open>random.choice\<close>; \<open>chart_ids\<close> is the list literal that line
  118 passes to it. The button exists only when no chart is
  displayed; otherwise nothing happens. The \<^verbatim>\<open>st.rerun()\<close> that ends the handler draws
  the page again from the new session and changes no field.
\<close>

definition chart_ids :: "string list" where
  "chart_ids = [''chart1'', ''chart2'']"

definition show_chart :: "real \<Rightarrow> nat \<Rightarrow> session \<Rightarrow> py_exc + session" where
  "show_chart now k s =
     (if \<not> chart_displayed s then
        (case random_choice chart_ids k of
           Inl e \<Rightarrow> Inl e
         | Inr c \<Rightarrow>
             Inr (s\<lparr>start_time := Some now, selected_chart := Some c,
                    chart_displayed := True\<rparr>))
      else Inr s)"

text \<open>
  Lines 125 and 134-140, the "I answered your question" button. The result is the new
  session and the messages written by the handler.
\<close>

definition mark_answered :: "real \<Rightarrow> session \<Rightarrow> py_exc + session \<times> ui_msg list" where
  "mark_answered now s =
     (if chart_displayed s \<and> truthy_str (selected_chart s) then
        if \<not> answered s then
          if truthy_float (start_time s) then
            (case py_sub now (start_time s) of
               Inl e \<Rightarrow> Inl e
             | Inr d \<Rightarrow> Inr (s\<lparr>elapsed_time := Some d, answered := True\<rparr>, []))
          else
            Inr (s\<lparr>answered := True\<rparr>,
                 [UiError ''Start time not recorded. Please try again.''])
        else Inr (s, [])
      else Inr (s, []))"

text \<open>Lines 125, 143 and 148-156, the "Go Back" button.\<close>

definition go_back :: "session \<Rightarrow> session" where
  "go_back s =
     (if chart_displayed s \<and> truthy_str (selected_chart s) then
        if answered s then
          s\<lparr>chart_displayed := False, start_time := None, selected_chart := None,
            answered := False, elapsed_time := None\<rparr>
        else s
      else s)"

section \<open>States of the experiment and runs of the script\<close>

text \<open>
  The three states are the conditions under which the script draws each button:
  line 115 for "Show a chart", lines 125 and 134 for "I answered your question",
  lines 125 and 143 for "Go Back".
\<close>

definition Idle :: "session \<Rightarrow> bool" where
  "Idle s = (\<not> chart_displayed s)"

definition Showing :: "session \<Rightarrow> bool" where
  "Showing s = (chart_displayed s \<and> truthy_str (selected_chart s) \<and> \<not> answered s)"

definition Answered :: "session \<Rightarrow> bool" where
  "Answered s = (chart_displayed s \<and> truthy_str (selected_chart s) \<and> answered s)"

text \<open>
  One click is one run of the script with one button pressed; the clock reading and the
  random draw of that run come with the click.
\<close>

datatype click = ShowChart real nat | IAnswered real | GoBack

fun press :: "click \<Rightarrow> session \<Rightarrow> py_exc + session" where
  "press (ShowChart now k) s = show_chart now k s"
| "press (IAnswered now) s =
     (case mark_answered now s of Inl e \<Rightarrow> Inl e | Inr (s', out) \<Rightarrow> Inr s')"
| "press GoBack s = Inr (go_back s)"

fun run :: "click list \<Rightarrow> session \<Rightarrow> py_exc + session" where
  "run [] s = Inr s"
| "run (c # cs) s = (case press c s of Inl e \<Rightarrow> Inl e | Inr s' \<Rightarrow> run cs s')"

text \<open>The two invariants of the data model.\<close>

definition chart_inv :: "session \<Rightarrow> bool" where
  "chart_inv s = ((selected_chart s \<noteq> None) = chart_displayed s)"

definition elapsed_inv :: "session \<Rightarrow> bool" where
  "elapsed_inv s = (elapsed_time s \<noteq> None \<longrightarrow> answered s)"

text \<open>
  The generator draws an index below the length of the list that line 118 passes to
  \<^verbatim>\<open>random.choice\<close>, each index as likely as any other. \<open>selection_share now s c\<close> is
  the share of these draws on which "Show a chart" displays the chart \<open>c\<close>.
\<close>

definition selection_share :: "real \<Rightarrow> session \<Rightarrow> string \<Rightarrow> real" where
  "selection_share now s c =
     real (length (filter (\<lambda>k. map_sum id selected_chart (show_chart now k s) = Inr (Some c))
                     [0 ..< length chart_ids])) / real (length chart_ids)"

section \<open>Runs of the script: shared lemmas\<close>

lemma run_snoc:
  "run (cs @ [c]) s = (case run cs s of Inl e \<Rightarrow> Inl e | Inr s' \<Rightarrow> press c s')"
  by (induction cs arbitrary: s) (auto split: sum.splits)

section \<open>The scenario show, answer, go back\<close>

text \<open>
  Claim C1 at the clock reading \<open>t = 0\<close>: "Show a chart" stores the start time \<open>0.0\<close>
  (line 117), which line 136 takes for false, so the click on "I answered your question"
  at reading \<open>5\<close> writes "Start time not recorded" and stores no elapsed time, where the
  claim has the elapsed time \<open>5 - 0\<close>. The start time was recorded; the test for its
  presence on line 136 is by truth value, while line 144 tests \<open>elapsed_time\<close> with
  \<^verbatim>\<open>is not None\<close>.
\<close>

theorem scenario_breaks_at_clock_zero:
  "run [ShowChart 0 0, IAnswered 5] init_session =
     Inr \<lparr>start_time = Some 0, chart_displayed = True, selected_chart = Some ''chart1'',
          answered = True, elapsed_time = None\<rparr> \<and>
   (None :: real option) \<noteq> Some (5 - 0)"
  by (simp add: show_chart_def chart_ids_def mark_answered_def random_choice_def
                truthy_float_def truthy_str_def init_session_def)

text \<open>
  At every other reading the scenario runs as described: whenever "Show a chart" returns
  from the initial session at a reading \<open>t \<noteq> 0\<close>, the session is Showing with start
  time \<open>t\<close> and one of the two chart identifiers; "I answered your question" at reading
  \<open>t'\<close> then writes no message, stores \<open>t' - t\<close> and gives an Answered session, and
  "Go Back" gives the initial session again.
\<close>

lemma scenario_off_clock_zero:
  assumes "show_chart t k init_session = Inr s1" and "t \<noteq> 0"
  shows "Showing s1 \<and> start_time s1 = Some t \<and>
      (selected_chart s1 = Some ''chart1'' \<or> selected_chart s1 = Some ''chart2'') \<and>
      elapsed_time s1 = None \<and>
      (\<exists>s2. mark_answered t' s1 = Inr (s2, []) \<and> Answered s2 \<and>
         elapsed_time s2 = Some (t' - t) \<and> start_time s2 = Some t \<and>
         selected_chart s2 = selected_chart s1 \<and> go_back s2 = init_session) \<and>
      Idle init_session \<and>
      run [ShowChart t k, IAnswered t', GoBack] init_session = Inr init_session"
proof -
  from assms(1) have "k < 2"
    by (simp add: show_chart_def chart_ids_def random_choice_def init_session_def
             split: if_splits)
  then have "k = 0 \<or> k = 1" by auto
  then have s1: "s1 = \<lparr>start_time = Some t, chart_displayed = True,
                       selected_chart = Some ''chart1'', answered = False,
                       elapsed_time = None\<rparr> \<or>
                 s1 = \<lparr>start_time = Some t, chart_displayed = True,
                       selected_chart = Some ''chart2'', answered = False,
                       elapsed_time = None\<rparr>"
    using assms(1)
    by (auto simp: show_chart_def chart_ids_def random_choice_def init_session_def)
  have i: "Idle init_session" by (simp add: Idle_def init_session_def)
  from s1 assms(2) have m: "Showing s1 \<and> start_time s1 = Some t \<and>
      (selected_chart s1 = Some ''chart1'' \<or> selected_chart s1 = Some ''chart2'') \<and>
      elapsed_time s1 = None \<and>
      mark_answered t' s1 = Inr (s1\<lparr>elapsed_time := Some (t' - t), answered := True\<rparr>, []) \<and>
      go_back (s1\<lparr>elapsed_time := Some (t' - t), answered := True\<rparr>) = init_session \<and>
      Answered (s1\<lparr>elapsed_time := Some (t' - t), answered := True\<rparr>)"
    by (auto simp: mark_answered_def go_back_def py_sub_def truthy_float_def truthy_str_def
                   init_session_def Showing_def Answered_def)
  then have r: "run [ShowChart t k, IAnswered t', GoBack] init_session = Inr init_session"
    using assms(1) by simp
  from m have "\<exists>s2. mark_answered t' s1 = Inr (s2, []) \<and> Answered s2 \<and>
         elapsed_time s2 = Some (t' - t) \<and> start_time s2 = Some t \<and>
         selected_chart s2 = selected_chart s1 \<and> go_back s2 = init_session"
    by (intro exI [of _ "s1\<lparr>elapsed_time := Some (t' - t), answered := True\<rparr>"]) simp
  with m i r show ?thesis by blast
qed

lemma scenario_at_100_and_103_5:
  "run [ShowChart 100 0, IAnswered 103.5] init_session =
     Inr \<lparr>start_time = Some 100, chart_displayed = True, selected_chart = Some ''chart1'',
          answered = True, elapsed_time = Some 3.5\<rparr> \<and>
   run [ShowChart 100 0, IAnswered 103.5, GoBack] init_session = Inr init_session"
  by (simp add: show_chart_def chart_ids_def mark_answered_def go_back_def random_choice_def
                py_sub_def truthy_float_def truthy_str_def init_session_def)

section \<open>A chart is selected exactly when one is displayed\<close>

lemma show_chart_chart_inv: "chart_inv s \<Longrightarrow> show_chart now k s = Inr s' \<Longrightarrow> chart_inv s'"
  by (auto simp: chart_inv_def show_chart_def chart_ids_def split: if_splits sum.splits)

lemma mark_answered_chart_inv:
  "chart_inv s \<Longrightarrow> mark_answered now s = Inr (s', out) \<Longrightarrow> chart_inv s'"
  by (auto simp: chart_inv_def mark_answered_def split: if_splits sum.splits)

lemma go_back_chart_inv: "chart_inv s \<Longrightarrow> chart_inv (go_back s)"
  by (auto simp: chart_inv_def go_back_def)

lemma press_chart_inv: "chart_inv s \<Longrightarrow> press c s = Inr s' \<Longrightarrow> chart_inv s'"
  by (cases c)
     (auto dest: show_chart_chart_inv mark_answered_chart_inv simp: go_back_chart_inv
           split: sum.splits)

lemma run_chart_inv: "chart_inv s \<Longrightarrow> run cs s = Inr s' \<Longrightarrow> chart_inv s'"
proof (induction cs arbitrary: s)
  case Nil
  then show ?case by simp
next
  case (Cons c cs)
  then show ?case by (auto split: sum.splits dest: press_chart_inv)
qed

text \<open>
  Claim C2: in every session reached from the initial one by any clicks,
  \<open>selected_chart\<close> is not \<open>None\<close> exactly when \<open>chart_displayed\<close> is true; and each
  of the three handlers, started in any session where this holds, ends in a session where
  it holds.
\<close>

theorem chart_inv_holds:
  "(run cs init_session = Inr s \<longrightarrow> chart_inv s) \<and>
   (chart_inv s1 \<and> show_chart now k s1 = Inr s1' \<longrightarrow> chart_inv s1') \<and>
   (chart_inv s2 \<and> mark_answered now' s2 = Inr (s2', out) \<longrightarrow> chart_inv s2') \<and>
   (chart_inv s3 \<longrightarrow> chart_inv (go_back s3))"
proof -
  have "chart_inv init_session" by (simp add: chart_inv_def init_session_def)
  then have "run cs init_session = Inr s \<longrightarrow> chart_inv s"
    using run_chart_inv by blast
  then show ?thesis
    using show_chart_chart_inv mark_answered_chart_inv go_back_chart_inv by blast
qed

theorem chart_inv_holds_witness:
  "run [ShowChart 100 1] init_session =
     Inr \<lparr>start_time = Some 100, chart_displayed = True, selected_chart = Some ''chart2'',
          answered = False, elapsed_time = None\<rparr> \<and>
   chart_inv init_session \<and>
   show_chart 100 1 init_session =
     Inr \<lparr>start_time = Some 100, chart_displayed = True, selected_chart = Some ''chart2'',
          answered = False, elapsed_time = None\<rparr> \<and>
   chart_inv \<lparr>start_time = Some 100, chart_displayed = True, selected_chart = Some ''chart2'',
              answered = False, elapsed_time = None\<rparr> \<and>
   mark_answered 103.5 \<lparr>start_time = Some 100, chart_displayed = True,
                        selected_chart = Some ''chart2'', answered = False,
                        elapsed_time = None\<rparr> =
     Inr (\<lparr>start_time = Some 100, chart_displayed = True, selected_chart = Some ''chart2'',
           answered = True, elapsed_time = Some 3.5\<rparr>, []) \<and>
   chart_inv \<lparr>start_time = Some 100, chart_displayed = True, selected_chart = Some ''chart2'',
              answered = True, elapsed_time = Some 3.5\<rparr> \<and>
   chart_inv (go_back \<lparr>start_time = Some 100, chart_displayed = True,
                       selected_chart = Some ''chart2'', answered = True,
                       elapsed_time = Some 3.5\<rparr>)"
  using chart_inv_holds
    [where cs = "[ShowChart 100 1]"
       and s = "\<lparr>start_time = Some 100, chart_displayed = True,
                 selected_chart = Some ''chart2'', answered = False, elapsed_time = None\<rparr>"
       and ?s1.0 = init_session and now = 100 and k = 1
       and s1' = "\<lparr>start_time = Some 100, chart_displayed = True,
                   selected_chart = Some ''chart2'', answered = False, elapsed_time = None\<rparr>"
       and ?s2.0 = "\<lparr>start_time = Some 100, chart_displayed = True,
                     selected_chart = Some ''chart2'', answered = False,
                     elapsed_time = None\<rparr>"
       and now' = "103.5"
       and s2' = "\<lparr>start_time = Some 100, chart_displayed = True,
                   selected_chart = Some ''chart2'', answered = True,
                   elapsed_time = Some 3.5\<rparr>"
       and out = "[]"
       and ?s3.0 = "\<lparr>start_time = Some 100, chart_displayed = True,
                     selected_chart = Some ''chart2'', answered = True,
                     elapsed_time = Some 3.5\<rparr>"]
  by (simp add: show_chart_def chart_ids_def mark_answered_def random_choice_def py_sub_def truthy_float_def
                truthy_str_def init_session_def chart_inv_def)

section \<open>The "I answered your question" handler\<close>

text \<open>
  Claim C3: in a Showing session whose start time is \<open>None\<close>, the handler returns (it
  does not raise), writes the error message, assigns nothing to \<open>elapsed_time\<close> (the
  session changes in \<open>answered\<close> only) and ends in an Answered session; and in every
  Showing session, whatever its start time, the handler returns a session that is
  Answered, with \<open>answered\<close> true.
\<close>

theorem mark_answered_without_start_time:
  assumes "Showing s"
  shows "(start_time s = None \<longrightarrow>
            mark_answered now s =
              Inr (s\<lparr>answered := True\<rparr>,
                   [UiError ''Start time not recorded. Please try again.''])) \<and>
         (\<exists>s' out. mark_answered now s = Inr (s', out) \<and> answered s' \<and> Answered s')"
  using assms
  by (auto simp: Showing_def Answered_def mark_answered_def truthy_float_def py_sub_def
           split: option.splits)

theorem mark_answered_without_start_time_witness:
  "Showing \<lparr>start_time = None, chart_displayed = True, selected_chart = Some ''chart2'',
            answered = False, elapsed_time = None\<rparr> \<and>
   mark_answered 7 \<lparr>start_time = None, chart_displayed = True,
                    selected_chart = Some ''chart2'', answered = False, elapsed_time = None\<rparr> =
     Inr (\<lparr>start_time = None, chart_displayed = True, selected_chart = Some ''chart2'',
           answered = True, elapsed_time = None\<rparr>,
          [UiError ''Start time not recorded. Please try again.''])"
  using mark_answered_without_start_time
    [of "\<lparr>start_time = None, chart_displayed = True, selected_chart = Some ''chart2'',
          answered = False, elapsed_time = None\<rparr>" 7]
  by (simp add: Showing_def truthy_str_def)

text \<open>
  Claim C9: in a Showing session whose start time is present and equal to \<open>0.0\<close>, the
  handler takes the branch of the missing start time: it writes the error message and
  sets \<open>answered\<close>, and assigns nothing to \<open>elapsed_time\<close>.
\<close>

theorem zero_start_time_takes_error_branch:
  assumes "Showing s" and "start_time s = Some 0"
  shows "mark_answered now s =
           Inr (s\<lparr>answered := True\<rparr>,
                [UiError ''Start time not recorded. Please try again.'']) \<and>
         answered (s\<lparr>answered := True\<rparr>) \<and>
         elapsed_time (s\<lparr>answered := True\<rparr>) = elapsed_time s"
  using assms by (simp add: Showing_def mark_answered_def truthy_float_def)

theorem zero_start_time_takes_error_branch_witness:
  "show_chart 0 1 init_session =
     Inr \<lparr>start_time = Some 0, chart_displayed = True, selected_chart = Some ''chart2'',
          answered = False, elapsed_time = None\<rparr> \<and>
   Showing \<lparr>start_time = Some 0, chart_displayed = True, selected_chart = Some ''chart2'',
            answered = False, elapsed_time = None\<rparr> \<and>
   mark_answered 12 \<lparr>start_time = Some 0, chart_displayed = True,
                     selected_chart = Some ''chart2'', answered = False,
                     elapsed_time = None\<rparr> =
     Inr (\<lparr>start_time = Some 0, chart_displayed = True, selected_chart = Some ''chart2'',
           answered = True, elapsed_time = None\<rparr>,
          [UiError ''Start time not recorded. Please try again.''])"
  using zero_start_time_takes_error_branch
    [of "\<lparr>start_time = Some 0, chart_displayed = True, selected_chart = Some ''chart2'',
          answered = False, elapsed_time = None\<rparr>" 12]
  by (simp add: Showing_def truthy_str_def show_chart_def chart_ids_def random_choice_def init_session_def)

text \<open>
  Claim C10: in every Showing session the handler returns, and \<open>start_time\<close>,
  \<open>selected_chart\<close> and \<open>chart_displayed\<close> are the same after it as before it, on the
  branch that stores the elapsed time and on the branch of the missing start time.
\<close>

theorem mark_answered_frame:
  assumes "Showing s"
  shows "\<exists>s' out. mark_answered now s = Inr (s', out) \<and> start_time s' = start_time s \<and>
           selected_chart s' = selected_chart s \<and> chart_displayed s' = chart_displayed s"
  using assms
  by (auto simp: Showing_def mark_answered_def truthy_float_def py_sub_def split: option.splits)

theorem mark_answered_frame_witness:
  "Showing \<lparr>start_time = Some 100, chart_displayed = True, selected_chart = Some ''chart1'',
            answered = False, elapsed_time = None\<rparr> \<and>
   mark_answered 103.5 \<lparr>start_time = Some 100, chart_displayed = True,
                        selected_chart = Some ''chart1'', answered = False,
                        elapsed_time = None\<rparr> =
     Inr (\<lparr>start_time = Some 100, chart_displayed = True, selected_chart = Some ''chart1'',
           answered = True, elapsed_time = Some 3.5\<rparr>, []) \<and>
   Showing \<lparr>start_time = None, chart_displayed = True, selected_chart = Some ''chart1'',
            answered = False, elapsed_time = None\<rparr> \<and>
   mark_answered 103.5 \<lparr>start_time = None, chart_displayed = True,
                        selected_chart = Some ''chart1'', answered = False,
                        elapsed_time = None\<rparr> =
     Inr (\<lparr>start_time = None, chart_displayed = True, selected_chart = Some ''chart1'',
           answered = True, elapsed_time = None\<rparr>,
          [UiError ''Start time not recorded. Please try again.''])"
  using mark_answered_frame
    [of "\<lparr>start_time = Some 100, chart_displayed = True, selected_chart = Some ''chart1'',
          answered = False, elapsed_time = None\<rparr>" "103.5"]
    mark_answered_frame
    [of "\<lparr>start_time = None, chart_displayed = True, selected_chart = Some ''chart1'',
          answered = False, elapsed_time = None\<rparr>" "103.5"]
  by (simp add: Showing_def truthy_str_def truthy_float_def mark_answered_def py_sub_def)

section \<open>The "Go Back" handler\<close>

text \<open>
  Claim C5: from every Answered session, whichever chart it shows and whether or not an
  elapsed time is stored, "Go Back" gives exactly the initial session: \<open>start_time\<close>,
  \<open>selected_chart\<close> and \<open>elapsed_time\<close> are \<open>None\<close>, \<open>chart_displayed\<close> and
  \<open>answered\<close> are false.
\<close>

theorem go_back_from_Answered:
  assumes "Answered s"
  shows "go_back s = init_session \<and>
         go_back s = \<lparr>start_time = None, chart_displayed = False, selected_chart = None,
                      answered = False, elapsed_time = None\<rparr>"
  using assms by (simp add: Answered_def go_back_def init_session_def)

theorem go_back_from_Answered_witness:
  "Answered \<lparr>start_time = Some 100, chart_displayed = True, selected_chart = Some ''chart2'',
             answered = True, elapsed_time = Some 3.5\<rparr> \<and>
   go_back \<lparr>start_time = Some 100, chart_displayed = True, selected_chart = Some ''chart2'',
            answered = True, elapsed_time = Some 3.5\<rparr> = init_session \<and>
   Answered \<lparr>start_time = Some 0, chart_displayed = True, selected_chart = Some ''chart1'',
             answered = True, elapsed_time = None\<rparr> \<and>
   go_back \<lparr>start_time = Some 0, chart_displayed = True, selected_chart = Some ''chart1'',
            answered = True, elapsed_time = None\<rparr> = init_session"
  using go_back_from_Answered
    [of "\<lparr>start_time = Some 100, chart_displayed = True, selected_chart = Some ''chart2'',
          answered = True, elapsed_time = Some 3.5\<rparr>"]
    go_back_from_Answered
    [of "\<lparr>start_time = Some 0, chart_displayed = True, selected_chart = Some ''chart1'',
          answered = True, elapsed_time = None\<rparr>"]
  by (simp add: Answered_def truthy_str_def)

section \<open>An elapsed time is stored only in an answered session\<close>

lemma show_chart_elapsed_inv:
  "elapsed_inv s \<Longrightarrow> show_chart now k s = Inr s' \<Longrightarrow> elapsed_inv s'"
  by (auto simp: elapsed_inv_def show_chart_def chart_ids_def split: if_splits sum.splits)

lemma mark_answered_elapsed_inv:
  "elapsed_inv s \<Longrightarrow> mark_answered now s = Inr (s', out) \<Longrightarrow> elapsed_inv s'"
  by (auto simp: elapsed_inv_def mark_answered_def split: if_splits sum.splits)

lemma go_back_elapsed_inv: "elapsed_inv s \<Longrightarrow> elapsed_inv (go_back s)"
  by (auto simp: elapsed_inv_def go_back_def)

lemma press_elapsed_inv: "elapsed_inv s \<Longrightarrow> press c s = Inr s' \<Longrightarrow> elapsed_inv s'"
  by (cases c)
     (auto dest: show_chart_elapsed_inv mark_answered_elapsed_inv simp: go_back_elapsed_inv
           split: sum.splits)

lemma run_elapsed_inv: "elapsed_inv s \<Longrightarrow> run cs s = Inr s' \<Longrightarrow> elapsed_inv s'"
proof (induction cs arbitrary: s)
  case Nil
  then show ?case by simp
next
  case (Cons c cs)
  then show ?case by (auto split: sum.splits dest: press_elapsed_inv)
qed

text \<open>
  Claim C7: in every session reached from the initial one by any clicks,
  \<open>elapsed_time\<close> is present only if \<open>answered\<close> is true; the handlers of
  "I answered your question" and of "Go Back", started in any session where this holds,
  end in a session where it holds; and "Go Back" from an Answered session clears
  \<open>elapsed_time\<close> together with \<open>answered\<close>.
\<close>

theorem elapsed_inv_holds:
  "(run cs init_session = Inr s \<longrightarrow> elapsed_inv s) \<and>
   (elapsed_inv s1 \<and> mark_answered now s1 = Inr (s1', out) \<longrightarrow> elapsed_inv s1') \<and>
   (elapsed_inv s2 \<longrightarrow> elapsed_inv (go_back s2)) \<and>
   (Answered s3 \<longrightarrow> elapsed_time (go_back s3) = None \<and> \<not> answered (go_back s3))"
proof -
  have "elapsed_inv init_session" by (simp add: elapsed_inv_def init_session_def)
  then have "run cs init_session = Inr s \<longrightarrow> elapsed_inv s"
    using run_elapsed_inv by blast
  moreover have "Answered s3 \<longrightarrow> elapsed_time (go_back s3) = None \<and> \<not> answered (go_back s3)"
    by (simp add: Answered_def go_back_def)
  ultimately show ?thesis
    using mark_answered_elapsed_inv go_back_elapsed_inv by blast
qed

theorem elapsed_inv_holds_witness:
  "run [ShowChart 100 0, IAnswered 103.5] init_session =
     Inr \<lparr>start_time = Some 100, chart_displayed = True, selected_chart = Some ''chart1'',
          answered = True, elapsed_time = Some 3.5\<rparr> \<and>
   elapsed_inv \<lparr>start_time = Some 100, chart_displayed = True,
                selected_chart = Some ''chart1'', answered = True,
                elapsed_time = Some 3.5\<rparr> \<and>
   elapsed_inv \<lparr>start_time = Some 100, chart_displayed = True,
                selected_chart = Some ''chart1'', answered = False, elapsed_time = None\<rparr> \<and>
   mark_answered 103.5 \<lparr>start_time = Some 100, chart_displayed = True,
                        selected_chart = Some ''chart1'', answered = False,
                        elapsed_time = None\<rparr> =
     Inr (\<lparr>start_time = Some 100, chart_displayed = True, selected_chart = Some ''chart1'',
           answered = True, elapsed_time = Some 3.5\<rparr>, []) \<and>
   Answered \<lparr>start_time = Some 100, chart_displayed = True, selected_chart = Some ''chart1'',
             answered = True, elapsed_time = Some 3.5\<rparr> \<and>
   elapsed_inv (go_back \<lparr>start_time = Some 100, chart_displayed = True,
                         selected_chart = Some ''chart1'', answered = True,
                         elapsed_time = Some 3.5\<rparr>) \<and>
   elapsed_time (go_back \<lparr>start_time = Some 100, chart_displayed = True,
                          selected_chart = Some ''chart1'', answered = True,
                          elapsed_time = Some 3.5\<rparr>) = None \<and>
   \<not> answered (go_back \<lparr>start_time = Some 100, chart_displayed = True,
                        selected_chart = Some ''chart1'', answered = True,
                        elapsed_time = Some 3.5\<rparr>)"
  using elapsed_inv_holds
    [where cs = "[ShowChart 100 0, IAnswered 103.5]"
       and s = "\<lparr>start_time = Some 100, chart_displayed = True,
                 selected_chart = Some ''chart1'', answered = True,
                 elapsed_time = Some 3.5\<rparr>"
       and ?s1.0 = "\<lparr>start_time = Some 100, chart_displayed = True,
                     selected_chart = Some ''chart1'', answered = False,
                     elapsed_time = None\<rparr>"
       and now = "103.5"
       and s1' = "\<lparr>start_time = Some 100, chart_displayed = True,
                   selected_chart = Some ''chart1'', answered = True,
                   elapsed_time = Some 3.5\<rparr>"
       and out = "[]"
       and ?s2.0 = "\<lparr>start_time = Some 100, chart_displayed = True,
                     selected_chart = Some ''chart1'', answered = True,
                     elapsed_time = Some 3.5\<rparr>"
       and ?s3.0 = "\<lparr>start_time = Some 100, chart_displayed = True,
                     selected_chart = Some ''chart1'', answered = True,
                     elapsed_time = Some 3.5\<rparr>"]
  by (simp add: show_chart_def chart_ids_def mark_answered_def random_choice_def py_sub_def truthy_float_def
                truthy_str_def init_session_def elapsed_inv_def Answered_def)

section \<open>The elapsed time that is stored\<close>

lemma press_elapsed_Answered:
  "elapsed_time s \<noteq> None \<longrightarrow> Answered s \<Longrightarrow> press c s = Inr s' \<Longrightarrow>
     elapsed_time s' \<noteq> None \<longrightarrow> Answered s'"
  by (cases c)
     (auto simp: Answered_def show_chart_def chart_ids_def mark_answered_def go_back_def
           split: if_splits sum.splits)

lemma run_elapsed_Answered:
  "elapsed_time s \<noteq> None \<longrightarrow> Answered s \<Longrightarrow> run cs s = Inr s' \<Longrightarrow>
     elapsed_time s' \<noteq> None \<longrightarrow> Answered s'"
proof (induction cs arbitrary: s)
  case Nil
  then show ?case by simp
next
  case (Cons c cs)
  from Cons.prems(2) obtain s1 where s1: "press c s = Inr s1" "run cs s1 = Inr s'"
    by (auto split: sum.splits)
  from press_elapsed_Answered [OF Cons.prems(1) s1(1)] Cons.IH s1(2)
  show ?case by blast
qed

lemma reachable_elapsed_Answered:
  "run cs init_session = Inr s \<Longrightarrow> elapsed_time s \<noteq> None \<longrightarrow> Answered s"
  using run_elapsed_Answered [of init_session cs s] by (simp add: init_session_def)

lemma press_keeps_or_records:
  assumes "press c s0 = Inr s" and "elapsed_time s = Some d"
    and "elapsed_time s0 \<noteq> None \<longrightarrow> Answered s0"
  shows "s = s0 \<or>
    (\<exists>now t. c = IAnswered now \<and> Showing s0 \<and> start_time s0 = Some t \<and>
       mark_answered now s0 = Inr (s, []) \<and> d = now - t)"
proof (cases c)
  case (ShowChart now k)
  with assms show ?thesis
    by (auto simp: show_chart_def chart_ids_def Answered_def split: if_splits sum.splits)
next
  case (IAnswered now)
  with assms show ?thesis
    by (auto simp: mark_answered_def Answered_def Showing_def truthy_float_def py_sub_def
             split: if_splits sum.splits option.splits)
next
  case GoBack
  with assms show ?thesis
    by (auto simp: go_back_def Answered_def split: if_splits)
qed

lemma elapsed_origin:
  "run cs init_session = Inr s \<Longrightarrow> elapsed_time s = Some d \<Longrightarrow>
     \<exists>pre now post sp t. cs = pre @ IAnswered now # post \<and> run pre init_session = Inr sp \<and>
        Showing sp \<and> start_time sp = Some t \<and> mark_answered now sp = Inr (s, []) \<and>
        d = now - t"
proof (induction cs arbitrary: s rule: rev_induct)
  case Nil
  then show ?case by (auto simp: init_session_def)
next
  case (snoc c cs)
  from snoc.prems(1) obtain s0 where s0: "run cs init_session = Inr s0" "press c s0 = Inr s"
    by (auto simp: run_snoc split: sum.splits)
  from press_keeps_or_records [OF s0(2) snoc.prems(2) reachable_elapsed_Answered [OF s0(1)]]
  show ?case
  proof
    assume "s = s0"
    with snoc.IH [of s0] s0(1) snoc.prems(2)
    obtain pre now post sp t where h:
      "cs = pre @ IAnswered now # post" "run pre init_session = Inr sp" "Showing sp"
      "start_time sp = Some t" "mark_answered now sp = Inr (s, [])" "d = now - t"
      by blast
    from h(1) have "cs @ [c] = pre @ IAnswered now # (post @ [c])" by simp
    with h(2-6) show ?thesis by blast
  next
    assume "\<exists>now t. c = IAnswered now \<and> Showing s0 \<and> start_time s0 = Some t \<and>
       mark_answered now s0 = Inr (s, []) \<and> d = now - t"
    then obtain now t where h: "c = IAnswered now" "Showing s0" "start_time s0 = Some t"
       "mark_answered now s0 = Inr (s, [])" "d = now - t" by blast
    from h(1) have "cs @ [c] = cs @ IAnswered now # []" by simp
    with h(2-5) s0(1) show ?thesis by blast
  qed
qed

text \<open>
  Claim C6, as stated, on a clock that is set back between the two clicks
  (\<^verbatim>\<open>time.time()\<close> is the wall clock and can return a lower value than an earlier call):
  the chart is shown at reading \<open>100\<close>, the answer is given at reading \<open>50\<close>, and the
  elapsed time that is stored is \<open>-50\<close>, which is negative.
\<close>

theorem elapsed_time_negative_when_clock_set_back:
  "run [ShowChart 100 0, IAnswered 50] init_session =
     Inr \<lparr>start_time = Some 100, chart_displayed = True, selected_chart = Some ''chart1'',
          answered = True, elapsed_time = Some (- 50)\<rparr> \<and>
   \<not> (0::real) \<le> - 50"
  by (simp add: show_chart_def chart_ids_def mark_answered_def random_choice_def py_sub_def truthy_float_def
                truthy_str_def init_session_def)

text \<open>
  Claim C6, amended: whenever an elapsed time \<open>d\<close> is present in a session reached from
  the initial one, the session is the one that a click on "I answered your question"
  produced, at some clock reading \<open>now\<close>, from a Showing session with start time \<open>t\<close>
  (the clicks after it changed nothing); the start time is still \<open>t\<close>, \<open>d\<close> is
  \<open>now - t\<close>, and \<open>d\<close> is at least \<open>0\<close> exactly when the reading \<open>now\<close> is not
  earlier than the start time.
\<close>

theorem elapsed_time_is_answer_reading_minus_start_time:
  assumes "run cs init_session = Inr s" and "elapsed_time s = Some d"
  shows "\<exists>pre now post sp t. cs = pre @ IAnswered now # post \<and>
           run pre init_session = Inr sp \<and> Showing sp \<and> mark_answered now sp = Inr (s, []) \<and>
           start_time sp = Some t \<and> start_time s = Some t \<and> d = now - t \<and>
           (0 \<le> d) = (t \<le> now)"
proof -
  from elapsed_origin [OF assms] obtain pre now post sp t where h:
    "cs = pre @ IAnswered now # post" "run pre init_session = Inr sp" "Showing sp"
    "start_time sp = Some t" "mark_answered now sp = Inr (s, [])" "d = now - t"
    by blast
  have "start_time s = start_time sp"
    using h(5) by (auto simp: mark_answered_def split: if_splits sum.splits)
  with h show ?thesis by auto
qed

theorem elapsed_time_is_answer_reading_minus_start_time_witness:
  "run [ShowChart 100 0, IAnswered 103.5, ShowChart 200 1] init_session =
     Inr \<lparr>start_time = Some 100, chart_displayed = True, selected_chart = Some ''chart1'',
          answered = True, elapsed_time = Some 3.5\<rparr> \<and>
   (\<exists>pre now post sp t.
      [ShowChart 100 0, IAnswered 103.5, ShowChart 200 1] = pre @ IAnswered now # post \<and>
      run pre init_session = Inr sp \<and> Showing sp \<and>
      mark_answered now sp =
        Inr (\<lparr>start_time = Some 100, chart_displayed = True,
              selected_chart = Some ''chart1'', answered = True,
              elapsed_time = Some 3.5\<rparr>, []) \<and>
      start_time sp = Some t \<and> Some (100::real) = Some t \<and> (3.5::real) = now - t \<and>
      ((0::real) \<le> 3.5) = (t \<le> now))"
proof -
  have r: "run [ShowChart 100 0, IAnswered 103.5, ShowChart 200 1] init_session =
     Inr \<lparr>start_time = Some 100, chart_displayed = True, selected_chart = Some ''chart1'',
          answered = True, elapsed_time = Some 3.5\<rparr>"
    by (simp add: show_chart_def chart_ids_def mark_answered_def random_choice_def py_sub_def
                  truthy_float_def truthy_str_def init_session_def)
  from elapsed_time_is_answer_reading_minus_start_time [OF r, of "3.5"] r
  show ?thesis by simp
qed

section \<open>The random selection of the chart\<close>

lemma show_chart_returns_iff:
  "Idle s \<Longrightarrow> (\<exists>s'. show_chart now k s = Inr s') = (k < 2)"
  by (auto simp: show_chart_def chart_ids_def random_choice_def Idle_def)

lemma show_chart_selects_one_of_two:
  "Idle s \<Longrightarrow> show_chart now k s = Inr s' \<Longrightarrow>
     selected_chart s' = Some ''chart1'' \<or> selected_chart s' = Some ''chart2''"
proof -
  assume i: "Idle s" and r: "show_chart now k s = Inr s'"
  from show_chart_returns_iff [OF i, of now k] r have "k = 0 \<or> k = 1" by auto
  with i r show ?thesis
    by (auto simp: show_chart_def chart_ids_def random_choice_def Idle_def)
qed

lemma show_chart_draw_0:
  "Idle s \<Longrightarrow> map_sum id selected_chart (show_chart now 0 s) = Inr (Some ''chart1'')"
  by (simp add: show_chart_def chart_ids_def random_choice_def Idle_def)

lemma show_chart_draw_1:
  "Idle s \<Longrightarrow> map_sum id selected_chart (show_chart now 1 s) = Inr (Some ''chart2'')"
  by (simp add: show_chart_def chart_ids_def random_choice_def Idle_def)

lemma selection_share_two_draws:
  "selection_share now s c =
     real (length (filter (\<lambda>k. map_sum id selected_chart (show_chart now k s) = Inr (Some c))
                     [0, 1])) / 2"
proof -
  have "[0 ..< length chart_ids] = [0, 1]" by (simp add: chart_ids_def upt_rec)
  moreover have "real (length chart_ids) = 2" by (simp add: chart_ids_def)
  ultimately show ?thesis by (simp add: selection_share_def)
qed

text \<open>
  Claim C8: in an Idle session "Show a chart" returns on exactly two draws of the
  generator, \<open>0\<close> and \<open>1\<close>, which are all the draws below the length of the list it
  chooses from; on no draw at all does it select anything but \<open>chart1\<close> or \<open>chart2\<close>;
  it selects \<open>chart1\<close> on draw \<open>0\<close> and \<open>chart2\<close> on draw \<open>1\<close>. So, the draws being
  equally likely, each of the two identifiers has the share one half and every other
  identifier the share zero.
\<close>

theorem chart_selection_uniform:
  assumes "Idle s"
  shows "(\<forall>k. (\<exists>s'. show_chart now k s = Inr s') = (k < 2)) \<and>
         (\<forall>k s'. show_chart now k s = Inr s' \<longrightarrow>
            selected_chart s' = Some ''chart1'' \<or> selected_chart s' = Some ''chart2'') \<and>
         map_sum id selected_chart (show_chart now 0 s) = Inr (Some ''chart1'') \<and>
         map_sum id selected_chart (show_chart now 1 s) = Inr (Some ''chart2'') \<and>
         selection_share now s ''chart1'' = 1 / 2 \<and>
         selection_share now s ''chart2'' = 1 / 2 \<and>
         (\<forall>c. c \<noteq> ''chart1'' \<and> c \<noteq> ''chart2'' \<longrightarrow> selection_share now s c = 0)"
proof -
  note d0 = show_chart_draw_0 [OF assms, of now] and d1 = show_chart_draw_1 [OF assms, of now]
  from d1 have d1': "map_sum id selected_chart (show_chart now (Suc 0) s) = Inr (Some ''chart2'')"
    by simp
  have "selection_share now s ''chart1'' = 1 / 2"
    by (simp add: selection_share_two_draws d0 d1')
  moreover have "selection_share now s ''chart2'' = 1 / 2"
    by (simp add: selection_share_two_draws d0 d1')
  moreover have "\<forall>c. c \<noteq> ''chart1'' \<and> c \<noteq> ''chart2'' \<longrightarrow> selection_share now s c = 0"
    by (auto simp: selection_share_two_draws d0 d1')
  ultimately show ?thesis
    using show_chart_returns_iff [OF assms, of now]
      show_chart_selects_one_of_two [OF assms, of now] d0 d1
    by blast
qed

theorem chart_selection_uniform_witness:
  "Idle init_session \<and>
   show_chart 100 2 init_session = Inl (Exc ''list index out of range'') \<and>
   map_sum id selected_chart (show_chart 100 0 init_session) = Inr (Some ''chart1'') \<and>
   map_sum id selected_chart (show_chart 100 1 init_session) = Inr (Some ''chart2'') \<and>
   selection_share 100 init_session ''chart1'' = 1 / 2 \<and>
   selection_share 100 init_session ''chart2'' = 1 / 2 \<and>
   ''chart3'' \<noteq> ''chart1'' \<and> ''chart3'' \<noteq> ''chart2'' \<and>
   selection_share 100 init_session ''chart3'' = 0"
proof -
  have i: "Idle init_session" by (simp add: Idle_def init_session_def)
  have o: "show_chart 100 2 init_session = Inl (Exc ''list index out of range'')"
    by (simp add: show_chart_def chart_ids_def random_choice_def init_session_def)
  from chart_selection_uniform [OF i, of 100] i o show ?thesis by simp
qed

section \<open>Loading the data\<close>

text \<open>
  Claim C4, as stated, when the Google Sheet cannot be reached and the fallback
  \<^verbatim>\<open>sns.load_dataset('titanic')\<close> raises too (it is called inside the handler, with no
  handler of its own): the two warnings are written and the exception of the fallback
  leaves \<^verbatim>\<open>load_data\<close>; no dataset is returned.
\<close>

theorem load_data_raises_when_fallback_fails:
  "load_data \<lparr>connection = Inl (Exc ''unreachable''), read = Inr (),
              load_dataset = Inl (Exc ''offline'')\<rparr> =
     (Inl (Exc ''offline''),
      [UiWarning (''Error loading Google Sheet. Falling back to Seaborn'' @ [CHR 0x27]
                  @ ''s Titanic dataset.''),
       UiWarning ''**Error details**: unreachable''])"
  by (simp add: load_data_def primary_read_def)

text \<open>
  Claim C4, amended. When the primary read (opening the connection, then reading it)
  returns a table, \<^verbatim>\<open>load_data\<close> returns that table as it is, with the success message.
  When the primary read raises an \<^verbatim>\<open>Exception\<close>, that exception does not leave
  \<^verbatim>\<open>load_data\<close>: the two warnings are written, the second with the text of the
  exception, and the outcome is the outcome of the fallback load, a table or an exception.
  A table that \<^verbatim>\<open>load_data\<close> returns is the very table one of the two sources gave; it
  is not validated. So \<^verbatim>\<open>load_data\<close> returns a table exactly when the primary read
  returns one, or raises an \<^verbatim>\<open>Exception\<close> while the fallback load returns one, and it
  returns a usable table exactly when that table of the source is usable.
\<close>

theorem load_data_outcomes:
  "(primary_read env = Inr t \<longrightarrow>
      load_data env =
        (Inr t, [UiSuccess ''Data successfully loaded from Google Sheet using secrets!''])) \<and>
   (primary_read env = Inl (Exc e) \<longrightarrow>
      load_data env =
        (load_dataset env,
         [UiWarning (''Error loading Google Sheet. Falling back to Seaborn'' @ [CHR 0x27]
                     @ ''s Titanic dataset.''),
          UiWarning (''**Error details**: '' @ e)])) \<and>
   (fst (load_data env) = Inr t' \<longrightarrow>
      primary_read env = Inr t' \<or>
      (\<exists>e. primary_read env = Inl (Exc e)) \<and> load_dataset env = Inr t') \<and>
   ((\<exists>t. fst (load_data env) = Inr t) =
      ((\<exists>t. primary_read env = Inr t) \<or>
       (\<exists>e. primary_read env = Inl (Exc e)) \<and> (\<exists>t. load_dataset env = Inr t))) \<and>
   ((\<exists>t. fst (load_data env) = Inr t \<and> usable t) =
      ((\<exists>t. primary_read env = Inr t \<and> usable t) \<or>
       (\<exists>e. primary_read env = Inl (Exc e)) \<and> (\<exists>t. load_dataset env = Inr t \<and> usable t)))"
proof -
  have a: "primary_read env = Inr t \<longrightarrow>
      load_data env =
        (Inr t, [UiSuccess ''Data successfully loaded from Google Sheet using secrets!''])"
    by (simp add: load_data_def)
  have b: "primary_read env = Inl (Exc e) \<longrightarrow>
      load_data env =
        (load_dataset env,
         [UiWarning (''Error loading Google Sheet. Falling back to Seaborn'' @ [CHR 0x27]
                     @ ''s Titanic dataset.''),
          UiWarning (''**Error details**: '' @ e)])"
    by (simp add: load_data_def)
  have c: "fst (load_data env) = Inr u \<longleftrightarrow>
      primary_read env = Inr u \<or>
      (\<exists>e. primary_read env = Inl (Exc e)) \<and> load_dataset env = Inr u" for u
    by (auto simp: load_data_def split: sum.splits py_exc.splits)
  from a b c [of t'] show ?thesis
    unfolding c by blast
qed

theorem load_data_outcomes_witness:
  "primary_read \<lparr>connection = Inr (), read = Inl (Exc ''timeout''),
                 load_dataset = Inr \<lparr>columns = [''survived'', ''pclass'', ''sex''],
                                      rows = [[''1'', ''1'', ''female'']]\<rparr>\<rparr>
     = Inl (Exc ''timeout'') \<and>
   load_data \<lparr>connection = Inr (), read = Inl (Exc ''timeout''),
              load_dataset = Inr \<lparr>columns = [''survived'', ''pclass'', ''sex''],
                                   rows = [[''1'', ''1'', ''female'']]\<rparr>\<rparr> =
     (Inr \<lparr>columns = [''survived'', ''pclass'', ''sex''], rows = [[''1'', ''1'', ''female'']]\<rparr>,
      [UiWarning (''Error loading Google Sheet. Falling back to Seaborn'' @ [CHR 0x27]
                  @ ''s Titanic dataset.''),
       UiWarning ''**Error details**: timeout'']) \<and>
   usable \<lparr>columns = [''survived'', ''pclass'', ''sex''], rows = [[''1'', ''1'', ''female'']]\<rparr> \<and>
   primary_read \<lparr>connection = Inr (),
                 read = Inr \<lparr>columns = [''Pclass'', ''Sex'', ''Survived''],
                              rows = [[''3'', ''male'', ''0'']]\<rparr>,
                 load_dataset = Inl (Exc ''offline'')\<rparr>
     = Inr \<lparr>columns = [''Pclass'', ''Sex'', ''Survived''], rows = [[''3'', ''male'', ''0'']]\<rparr> \<and>
   load_data \<lparr>connection = Inr (),
              read = Inr \<lparr>columns = [''Pclass'', ''Sex'', ''Survived''],
                           rows = [[''3'', ''male'', ''0'']]\<rparr>,
              load_dataset = Inl (Exc ''offline'')\<rparr> =
     (Inr \<lparr>columns = [''Pclass'', ''Sex'', ''Survived''], rows = [[''3'', ''male'', ''0'']]\<rparr>,
      [UiSuccess ''Data successfully loaded from Google Sheet using secrets!'']) \<and>
   \<not> usable \<lparr>columns = [''Pclass'', ''Sex'', ''Survived''], rows = [[''3'', ''male'', ''0'']]\<rparr>"
  using load_data_outcomes
    [where env = "\<lparr>connection = Inr (), read = Inl (Exc ''timeout''),
                   load_dataset = Inr \<lparr>columns = [''survived'', ''pclass'', ''sex''],
                                        rows = [[''1'', ''1'', ''female'']]\<rparr>\<rparr>"
       and e = "''timeout''"]
    load_data_outcomes
    [where env = "\<lparr>connection = Inr (),
                    read = Inr \<lparr>columns = [''Pclass'', ''Sex'', ''Survived''],
                                 rows = [[''3'', ''male'', ''0'']]\<rparr>,
                    load_dataset = Inl (Exc ''offline'')\<rparr>"
       and t = "\<lparr>columns = [''Pclass'', ''Sex'', ''Survived''],
                  rows = [[''3'', ''male'', ''0'']]\<rparr>"]
  by (simp add: primary_read_def usable_def)

end
